theory Spec2Isabelle
  imports Main
begin

text \<open>
  A model of \<open>django_adaptation.py\<close>: the Person entity, the cache-aside repository
  \<open>PersonRepo\<close>, the interactor \<open>UseCaseInteractor\<close>, the serializer and the view
  \<open>PersonView\<close>, with the properties of the read path from the view down to the two
  stores.
\<close>

section \<open>Values, entities and exceptions\<close>

text \<open>
  The program is dynamically typed: a reference or a department identifier is any
  Python object. The values that occur in requests, entities and response bodies are
  modelled by one type of Python values.
\<close>

datatype pyval = PyNone | PyInt int | PyStr string

text \<open>
  Class \<open>Person\<close>: two attributes set by the constructor and read through the
  properties \<open>reference\<close> and \<open>department_id\<close>; there is no setter.
\<close>

datatype Person = Person (reference: pyval) (department_id: pyval)

text \<open>
  Exceptions are values. \<open>EntityDoesNotExist\<close> is the exception class the source
  raises and catches (its declaration is imported from elsewhere); it carries the
  argument tuple of the instance, so that two instances can be told apart.
  \<open>AttributeError\<close> is what Python raises on reading an attribute that an object
  does not have (the payload is the attribute's name). \<open>ORMPerson_DoesNotExist\<close> is
  the framework's \<open>ORMPerson.DoesNotExist\<close>. \<open>OtherError\<close> stands for every other
  exception class, by name.
\<close>

datatype exn =
    EntityDoesNotExist "pyval list"
  | AttributeError string
  | ORMPerson_DoesNotExist
  | OtherError string

text \<open>
  A variable that holds "a Person or None" is a \<open>Person option\<close>.
  A Python dictionary with string keys is an association list in insertion order;
  \<open>map_of\<close> gives its meaning as a mapping (dictionary equality in Python ignores the
  order).
\<close>

type_synonym dict = "(string \<times> pyval) list"

section \<open>Collaborators and the record of calls\<close>

text \<open>
  The cache store and the database store are objects handed to \<open>PersonRepo\<close>; the
  repository only calls their operations. An operation is a function on the collaborators'
  state \<open>'s\<close> that returns a value or raises, and leaves a new state.
\<close>

type_synonym ('s, 'a) operation = "'s \<Rightarrow> (exn + 'a) \<times> 's"

record 's cache_repo_obj =
  cache_get_person :: "pyval \<Rightarrow> ('s, Person option) operation"
  cache_save_person :: "Person option \<Rightarrow> ('s, unit) operation"

record 's db_repo_obj =
  db_get_person :: "pyval \<Rightarrow> ('s, Person option) operation"

text \<open>
  Which collaborator operations were invoked, with which argument, in which order.
  The list is ghost state: the collaborators cannot read or write it.
\<close>

datatype call = CacheGet pyval | DbGet pyval | CacheSave "Person option"

record 's env =
  store :: 's
  calls :: "call list"

definition invoke :: "call \<Rightarrow> ('s, 'a) operation \<Rightarrow> 's env \<Rightarrow> (exn + 'a) \<times> 's env" where
  "invoke c m w =
     (case m (store w) of (r, s') \<Rightarrow> (r, \<lparr>store = s', calls = calls w @ [c]\<rparr>))"

fun is_DbGet :: "call \<Rightarrow> bool" where
  "is_DbGet (DbGet r) = True"
| "is_DbGet c = False"

fun is_CacheSave :: "call \<Rightarrow> bool" where
  "is_CacheSave (CacheSave p) = True"
| "is_CacheSave c = False"

definition db_queries :: "call list \<Rightarrow> nat" where
  "db_queries cs = length (filter is_DbGet cs)"

definition cache_writes :: "call list \<Rightarrow> nat" where
  "cache_writes cs = length (filter is_CacheSave cs)"

section \<open>PersonRepo\<close>

record 's PersonRepo =
  db_repo :: "'s db_repo_obj"
  cache_repo :: "'s cache_repo_obj"

text \<open>
  \<^verbatim>\<open>
  def get_person(self, reference):
      person = self.cache_repo.get_person(reference)
      if person is None:
          person = self.db_repo.get_person(reference)
          self.cache_repo.save_person(person)
      return person
  \<close>
  An exception of a collaborator ends the call at once and is passed on.
\<close>

definition PersonRepo_get_person ::
  "'s PersonRepo \<Rightarrow> pyval \<Rightarrow> 's env \<Rightarrow> (exn + Person option) \<times> 's env" where
  "PersonRepo_get_person self ref w =
     (case invoke (CacheGet ref) (cache_get_person (cache_repo self) ref) w of
        (Inl e, w1) \<Rightarrow> (Inl e, w1)
      | (Inr person, w1) \<Rightarrow>
          (if person = None then
             (case invoke (DbGet ref) (db_get_person (db_repo self) ref) w1 of
                (Inl e, w2) \<Rightarrow> (Inl e, w2)
              | (Inr person', w2) \<Rightarrow>
                  (case invoke (CacheSave person')
                          (cache_save_person (cache_repo self) person') w2 of
                     (Inl e, w3) \<Rightarrow> (Inl e, w3)
                   | (Inr u, w3) \<Rightarrow> (Inr person', w3)))
           else (Inr person, w1)))"

section \<open>The stores behind the collaborators\<close>

text \<open>
  Modelled from the spec: \<open>ORMPerson\<close> is the framework's model class and is not in
  the source. A row has the two columns that \<open>_decode_orm_person\<close> reads.
\<close>

record ORMPerson =
  orm_reference :: pyval
  orm_department_id :: pyval

text \<open>
  The state of the two stores: the content of the cache, a dictionary from references to
  Persons (the spec: "key-value lookup/save for Person, keyed by reference"), and the
  table of the database.
\<close>

record stores =
  cache_data :: "pyval \<rightharpoonup> Person"
  orm_rows :: "ORMPerson list"

text \<open>
  Modelled from the spec: \<open>PersonCacheRepo.get_person\<close>; the class is named by its
  factory only. The spec: \<open>getPerson(reference) -> Person|None\<close>, a key-value lookup.
\<close>

definition PersonCacheRepo_get_person :: "pyval \<Rightarrow> (stores, Person option) operation" where
  "PersonCacheRepo_get_person ref s = (Inr (cache_data s ref), s)"

text \<open>
  Modelled from the spec: \<open>PersonCacheRepo.save_person\<close>; the class is named by its
  factory only. The spec: \<open>savePerson(Person) -> void\<close>, a save "keyed by reference".
  The key is read from the argument, which fails on \<open>None\<close>.
\<close>

definition PersonCacheRepo_save_person :: "Person option \<Rightarrow> (stores, unit) operation" where
  "PersonCacheRepo_save_person person s =
     (case person of
        None \<Rightarrow> (Inl (AttributeError ''reference''), s)
      | Some p \<Rightarrow> (Inr (), s\<lparr>cache_data := (cache_data s)(reference p \<mapsto> p)\<rparr>))"

definition PersonCacheRepo :: "stores cache_repo_obj" where
  "PersonCacheRepo =
     \<lparr>cache_get_person = PersonCacheRepo_get_person,
      cache_save_person = PersonCacheRepo_save_person\<rparr>"

definition has_reference :: "pyval \<Rightarrow> ORMPerson \<Rightarrow> bool" where
  "has_reference ref row = (orm_reference row = ref)"

text \<open>
  Modelled from the spec: \<open>ORMPerson.objects.get(reference=reference)\<close>, the
  framework's lookup, which is not in the source. The spec: the database store is a
  "lookup for Person, keyed by reference" that "raises a not-found signal". The lookup
  returns the one row with that reference, raises \<open>ORMPerson.DoesNotExist\<close> when there
  is none and \<open>MultipleObjectsReturned\<close> when there are several.
\<close>

definition ORMPerson_objects_get :: "pyval \<Rightarrow> ORMPerson list \<Rightarrow> exn + ORMPerson" where
  "ORMPerson_objects_get ref rows =
     (case filter (has_reference ref) rows of
        [] \<Rightarrow> Inl ORMPerson_DoesNotExist
      | [row] \<Rightarrow> Inr row
      | row # others \<Rightarrow> Inl (OtherError ''MultipleObjectsReturned''))"

text \<open>
  \<^verbatim>\<open>
  def _decode_orm_person(self, orm_person):
      return Person(reference=orm_person.reference,
                    department_id=orm_person.department_id)
  \<close>
\<close>

definition decode_orm_person :: "ORMPerson \<Rightarrow> Person" where
  "decode_orm_person orm_person =
     Person (orm_reference orm_person) (orm_department_id orm_person)"

text \<open>
  \<^verbatim>\<open>
  def get_person(self, reference):
      try:
          orm_person = ORMPerson.objects.get(reference=reference)
      except ORMPerson.DoesNotExist:
          raise EntityDoesNotExist()
      return self._decode_orm_person(orm_person)
  \<close>
  Only \<open>ORMPerson.DoesNotExist\<close> is translated; any other exception of the lookup is
  passed on.
\<close>

definition PersonDatabaseRepo_get_person :: "pyval \<Rightarrow> (stores, Person option) operation" where
  "PersonDatabaseRepo_get_person ref s =
     (case ORMPerson_objects_get ref (orm_rows s) of
        Inl ORMPerson_DoesNotExist \<Rightarrow> (Inl (EntityDoesNotExist []), s)
      | Inl e \<Rightarrow> (Inl e, s)
      | Inr orm_person \<Rightarrow> (Inr (Some (decode_orm_person orm_person)), s))"

definition PersonDatabaseRepo :: "stores db_repo_obj" where
  "PersonDatabaseRepo = \<lparr>db_get_person = PersonDatabaseRepo_get_person\<rparr>"

section \<open>UseCaseInteractor\<close>

text \<open>
  An interactor is a mutable object: \<open>set_params\<close> assigns an attribute and returns
  the object itself, and the view calls \<open>execute\<close> on what \<open>set_params\<close> returned.
  Interactor objects therefore live in a store of objects and are named by their
  address. \<open>uc_person_repo\<close> is the attribute \<open>person_repo\<close> (the bound function
  \<open>get_person\<close> of the repository object), \<open>uc_reference\<close> is the attribute
  \<open>reference\<close>, which an object has only once it was assigned: \<open>None\<close> here means
  that the attribute does not exist.
\<close>

type_synonym addr = nat

record 's UseCaseInteractor =
  uc_person_repo :: "pyval \<Rightarrow> 's env \<Rightarrow> (exn + Person option) \<times> 's env"
  uc_reference :: "pyval option"

text \<open>
  The program state: the collaborators' world, the interactor objects (addresses below
  \<open>next_addr\<close> are allocated), and the ghost list of the references with which
  interactors called \<open>person_repo.get_person\<close>.
\<close>

record 's state =
  env :: "'s env"
  objects :: "addr \<Rightarrow> 's UseCaseInteractor"
  next_addr :: addr
  repo_calls :: "pyval list"

text \<open>
  \<^verbatim>\<open>
  def __init__(self, person_repo):
      self.person_repo = person_repo
  \<close>
  Constructing an interactor allocates a new object, which has the attribute
  \<open>person_repo\<close> and no other.
\<close>

definition UseCaseInteractor_new ::
  "(pyval \<Rightarrow> 's env \<Rightarrow> (exn + Person option) \<times> 's env) \<Rightarrow> 's state \<Rightarrow> addr \<times> 's state" where
  "UseCaseInteractor_new person_repo \<sigma> =
     (next_addr \<sigma>,
      \<sigma>\<lparr>objects := (objects \<sigma>)
            (next_addr \<sigma> := \<lparr>uc_person_repo = person_repo, uc_reference = None\<rparr>),
        next_addr := Suc (next_addr \<sigma>)\<rparr>)"

text \<open>
  \<^verbatim>\<open>
  def set_params(self, reference):
      self.reference = reference
      return self
  \<close>
\<close>

definition set_params :: "addr \<Rightarrow> pyval \<Rightarrow> 's state \<Rightarrow> addr \<times> 's state" where
  "set_params self ref \<sigma> =
     (self, \<sigma>\<lparr>objects := (objects \<sigma>)(self := (objects \<sigma> self)\<lparr>uc_reference := Some ref\<rparr>)\<rparr>)"

text \<open>
  \<^verbatim>\<open>
  def execute(self):
      return self.person_repo.get_person(reference=self.reference)
  \<close>
  Reading \<open>self.reference\<close> raises \<open>AttributeError\<close> when the attribute was never
  assigned; the repository is then not called.
\<close>

definition execute :: "addr \<Rightarrow> 's state \<Rightarrow> (exn + Person option) \<times> 's state" where
  "execute self \<sigma> =
     (case uc_reference (objects \<sigma> self) of
        None \<Rightarrow> (Inl (AttributeError ''reference''), \<sigma>)
      | Some ref \<Rightarrow>
          (case uc_person_repo (objects \<sigma> self) ref (env \<sigma>) of
             (r, w') \<Rightarrow> (r, \<sigma>\<lparr>env := w', repo_calls := repo_calls \<sigma> @ [ref]\<rparr>)))"

section \<open>PersonSerializer and PersonView\<close>

text \<open>
  \<^verbatim>\<open>
  def serialize(person):
      return {
          'reference': person.reference,
          'department_id': person.department_id
      }
  \<close>
  \<open>None\<close> has no attribute \<open>reference\<close>.
\<close>

definition serialize :: "Person option \<Rightarrow> exn + dict" where
  "serialize person =
     (case person of
        None \<Rightarrow> Inl (AttributeError ''reference'')
      | Some p \<Rightarrow> Inr [(''reference'', reference p), (''department_id'', department_id p)])"

record PersonView =
  get_person_interactor :: addr

text \<open>
  \<^verbatim>\<open>
  def get(self, reference):
      try:
          person = (self.get_person_interactor
                    .set_params(reference=reference)
                    .execute())
      except EntityDoesNotExist:
          body = {'error': 'Person does not exist!'}
          status = 404
      else:
          body = PersonSerializer.serialize(person)
          status = 200
      return body, status
  \<close>
  The \<open>else\<close> branch is outside the \<open>try\<close>: an exception of the serializer is
  not handled, whatever its class.
\<close>

definition PersonView_get ::
  "PersonView \<Rightarrow> pyval \<Rightarrow> 's state \<Rightarrow> (exn + dict \<times> int) \<times> 's state" where
  "PersonView_get self ref \<sigma> =
     (case set_params (get_person_interactor self) ref \<sigma> of
        (interactor, \<sigma>1) \<Rightarrow>
          (case execute interactor \<sigma>1 of
             (Inl (EntityDoesNotExist args), \<sigma>2) \<Rightarrow>
               (Inr ([(''error'', PyStr ''Person does not exist!'')], 404), \<sigma>2)
           | (Inl e, \<sigma>2) \<Rightarrow> (Inl e, \<sigma>2)
           | (Inr person, \<sigma>2) \<Rightarrow>
               (case serialize person of
                  Inl e \<Rightarrow> (Inl e, \<sigma>2)
                | Inr body \<Rightarrow> (Inr (body, 200), \<sigma>2))))"

section \<open>Factories\<close>

definition PersonRepoFactory_get :: "stores PersonRepo" where
  "PersonRepoFactory_get = \<lparr>db_repo = PersonDatabaseRepo, cache_repo = PersonCacheRepo\<rparr>"

definition GetPersonInteractorFactory_get :: "stores state \<Rightarrow> addr \<times> stores state" where
  "GetPersonInteractorFactory_get \<sigma> =
     UseCaseInteractor_new (PersonRepo_get_person PersonRepoFactory_get) \<sigma>"

definition PersonViewFactory_create :: "stores state \<Rightarrow> PersonView \<times> stores state" where
  "PersonViewFactory_create \<sigma> =
     (case GetPersonInteractorFactory_get \<sigma> of
        (interactor, \<sigma>') \<Rightarrow> (\<lparr>get_person_interactor = interactor\<rparr>, \<sigma>'))"

section \<open>Auxiliary notions for stating the properties\<close>

text \<open>Calling \<open>set_params\<close> on one interactor with each of a list of references, in order.\<close>

fun configure :: "addr \<Rightarrow> pyval list \<Rightarrow> 's state \<Rightarrow> 's state" where
  "configure self [] \<sigma> = \<sigma>"
| "configure self (ref # refs) \<sigma> = configure self refs (snd (set_params self ref \<sigma>))"

text \<open>
  A client of one interactor calls its two functions in some order. \<open>run_ops\<close> gives
  the outcome of every call: \<open>None\<close> for a \<open>set_params\<close>, the result of the
  repository call or the exception for an \<open>execute\<close>.
\<close>

datatype op = SetParams pyval | Execute

fun is_SetParams :: "op \<Rightarrow> bool" where
  "is_SetParams (SetParams ref) = True"
| "is_SetParams Execute = False"

fun run_ops :: "addr \<Rightarrow> op list \<Rightarrow> 's state \<Rightarrow> (exn + Person option) option list" where
  "run_ops self [] \<sigma> = []"
| "run_ops self (SetParams ref # ops) \<sigma> =
     None # run_ops self ops (snd (set_params self ref \<sigma>))"
| "run_ops self (Execute # ops) \<sigma> =
     Some (fst (execute self \<sigma>)) # run_ops self ops (snd (execute self \<sigma>))"

fun succeeded :: "(exn + Person option) option \<Rightarrow> bool" where
  "succeeded (Some (Inr v)) = True"
| "succeeded r = False"

fun is_EntityDoesNotExist :: "exn \<Rightarrow> bool" where
  "is_EntityDoesNotExist (EntityDoesNotExist args) = True"
| "is_EntityDoesNotExist e = False"

text \<open>
  Equality of dictionaries as Python has it: the same keys with the same values, in
  any order.
\<close>

fun agree_on :: "string list \<Rightarrow> dict \<Rightarrow> dict \<Rightarrow> bool" where
  "agree_on [] a b = True"
| "agree_on (k # ks) a b = (map_of a k = map_of b k \<and> agree_on ks a b)"

definition same_dict :: "dict \<Rightarrow> dict \<Rightarrow> bool" where
  "same_dict a b = agree_on (map fst a @ map fst b) a b"

fun returns_dict :: "exn + dict \<Rightarrow> dict \<Rightarrow> bool" where
  "returns_dict (Inr body) d = same_dict body d"
| "returns_dict (Inl e) d = False"

fun responds :: "exn + dict \<times> int \<Rightarrow> dict \<Rightarrow> int \<Rightarrow> bool" where
  "responds (Inr (body, status)) d n = (same_dict body d \<and> status = n)"
| "responds (Inl e) d n = False"

section \<open>Example worlds\<close>

text \<open>
  A world with one Person in the cache and another one in the database only, and the
  objects that the factories build in it. \<open>raising_db\<close> is a database store that
  raises whenever it is queried; \<open>null_repo\<close> is a repository that returns
  \<open>None\<close>.
\<close>

definition example_stores :: stores where
  "example_stores =
     \<lparr>cache_data = [PyStr ''cached'' \<mapsto> Person (PyStr ''cached'') (PyInt 7)],
      orm_rows = [\<lparr>orm_reference = PyStr ''abc'', orm_department_id = PyInt 5\<rparr>]\<rparr>"

definition example_env :: "stores env" where
  "example_env = \<lparr>store = example_stores, calls = []\<rparr>"

text \<open>
  The state before any interactor is constructed. Addresses that are not allocated hold
  a placeholder that nothing reads: constructing an object overwrites it.
\<close>

definition example_state :: "stores state" where
  "example_state =
     \<lparr>env = example_env,
      objects = (\<lambda>a. \<lparr>uc_person_repo = PersonRepo_get_person PersonRepoFactory_get,
                       uc_reference = None\<rparr>),
      next_addr = 0,
      repo_calls = []\<rparr>"

definition example_view :: PersonView where
  "example_view = fst (PersonViewFactory_create example_state)"

definition example_world :: "stores state" where
  "example_world = snd (PersonViewFactory_create example_state)"

definition raising_db :: "stores db_repo_obj" where
  "raising_db = \<lparr>db_get_person = (\<lambda>ref s. (Inl (OtherError ''database queried''), s))\<rparr>"

definition raising_repo :: "stores PersonRepo" where
  "raising_repo = \<lparr>db_repo = raising_db, cache_repo = PersonCacheRepo\<rparr>"

definition null_repo :: "pyval \<Rightarrow> stores env \<Rightarrow> (exn + Person option) \<times> stores env" where
  "null_repo ref w = (Inr None, w)"

section \<open>Basic facts\<close>

lemma invoke_eq:
  "m (store w) = (r, s') \<Longrightarrow> invoke c m w = (r, \<lparr>store = s', calls = calls w @ [c]\<rparr>)"
  by (simp add: invoke_def)

lemma agree_on_iff: "agree_on ks a b \<longleftrightarrow> (\<forall>k \<in> set ks. map_of a k = map_of b k)"
  by (induction ks) auto

text \<open>\<open>same_dict\<close> decides equality of the mappings that two dictionaries denote.\<close>

lemma same_dict_iff: "same_dict a b \<longleftrightarrow> map_of a = map_of b"
proof
  assume h: "same_dict a b"
  show "map_of a = map_of b"
  proof
    fix k
    show "map_of a k = map_of b k"
    proof (cases "k \<in> set (map fst a @ map fst b)")
      case True
      with h show ?thesis by (simp add: same_dict_def agree_on_iff)
    next
      case False
      then have "map_of a k = None" and "map_of b k = None"
        by (simp_all add: map_of_eq_None_iff)
      then show ?thesis by simp
    qed
  qed
next
  assume "map_of a = map_of b"
  then show "same_dict a b" by (simp add: same_dict_def agree_on_iff)
qed

lemma configure_snoc:
  "configure self (refs @ [ref]) \<sigma> = snd (set_params self ref (configure self refs \<sigma>))"
  by (induction refs arbitrary: \<sigma>) simp_all

lemma configure_keeps:
  "env (configure self refs \<sigma>) = env \<sigma>
   \<and> repo_calls (configure self refs \<sigma>) = repo_calls \<sigma>
   \<and> next_addr (configure self refs \<sigma>) = next_addr \<sigma>
   \<and> uc_person_repo (objects (configure self refs \<sigma>) a) = uc_person_repo (objects \<sigma> a)"
  by (induction refs arbitrary: \<sigma>) (simp_all add: set_params_def)

lemma execute_keeps_objects: "objects (snd (execute self \<sigma>)) = objects \<sigma>"
  by (simp add: execute_def split: option.splits prod.splits)

text \<open>
  As long as the attribute \<open>reference\<close> is missing and no \<open>set_params\<close> has been
  called, no \<open>execute\<close> succeeds.
\<close>

lemma run_ops_needs_params:
  "uc_reference (objects \<sigma> self) = None \<Longrightarrow> k < length ops \<Longrightarrow>
   succeeded (run_ops self ops \<sigma> ! k) \<Longrightarrow> \<exists>j<k. is_SetParams (ops ! j)"
proof (induction ops arbitrary: k \<sigma>)
  case Nil
  then show ?case by simp
next
  case (Cons x ops)
  show ?case
  proof (cases x)
    case (SetParams ref)
    show ?thesis
    proof (cases k)
      case 0
      with Cons.prems SetParams show ?thesis by simp
    next
      case (Suc k')
      with SetParams have "0 < k" and "is_SetParams ((x # ops) ! 0)" by simp_all
      then show ?thesis by blast
    qed
  next
    case Execute
    show ?thesis
    proof (cases k)
      case 0
      with Cons.prems Execute show ?thesis by (simp add: execute_def)
    next
      case (Suc k')
      have "uc_reference (objects (snd (execute self \<sigma>)) self) = None"
        using Cons.prems(1) by (simp add: execute_keeps_objects)
      moreover have "k' < length ops" using Cons.prems(2) Suc by simp
      moreover have "succeeded (run_ops self ops (snd (execute self \<sigma>)) ! k')"
        using Cons.prems(3) Suc Execute by simp
      ultimately obtain j where "j < k'" and "is_SetParams (ops ! j)"
        using Cons.IH by blast
      then have "Suc j < k" and "is_SetParams ((x # ops) ! Suc j)"
        using Suc by simp_all
      then show ?thesis by blast
    qed
  qed
qed

subsection \<open>The example worlds, evaluated\<close>

lemma example_repo_cached:
  "cache_get_person PersonCacheRepo (PyStr ''cached'') example_stores
     = (Inr (Some (Person (PyStr ''cached'') (PyInt 7))), example_stores)"
  by (simp add: PersonCacheRepo_def PersonCacheRepo_get_person_def example_stores_def)

lemma example_cache_miss:
  "cache_get_person PersonCacheRepo (PyStr ''abc'') example_stores = (Inr None, example_stores)"
  "cache_get_person PersonCacheRepo (PyStr ''missing'') example_stores
     = (Inr None, example_stores)"
  by (simp_all add: PersonCacheRepo_def PersonCacheRepo_get_person_def example_stores_def)

lemma example_db:
  "db_get_person PersonDatabaseRepo (PyStr ''abc'') example_stores
     = (Inr (Some (Person (PyStr ''abc'') (PyInt 5))), example_stores)"
  "db_get_person PersonDatabaseRepo (PyStr ''missing'') example_stores
     = (Inl (EntityDoesNotExist []), example_stores)"
  by (simp_all add: PersonDatabaseRepo_def PersonDatabaseRepo_get_person_def
      ORMPerson_objects_get_def has_reference_def decode_orm_person_def example_stores_def)

lemma example_save:
  "cache_save_person PersonCacheRepo (Some (Person (PyStr ''abc'') (PyInt 5))) example_stores
     = (Inr (), example_stores\<lparr>cache_data := (cache_data example_stores)
           (PyStr ''abc'' \<mapsto> Person (PyStr ''abc'') (PyInt 5))\<rparr>)"
  by (simp add: PersonCacheRepo_def PersonCacheRepo_save_person_def)

lemma example_repo_miss:
  "PersonRepo_get_person PersonRepoFactory_get (PyStr ''abc'') example_env =
     (Inr (Some (Person (PyStr ''abc'') (PyInt 5))),
      \<lparr>store = example_stores\<lparr>cache_data := (cache_data example_stores)
           (PyStr ''abc'' \<mapsto> Person (PyStr ''abc'') (PyInt 5))\<rparr>,
       calls = [CacheGet (PyStr ''abc''), DbGet (PyStr ''abc''),
                CacheSave (Some (Person (PyStr ''abc'') (PyInt 5)))]\<rparr>)"
  by (simp add: PersonRepo_get_person_def invoke_def PersonRepoFactory_get_def
      example_cache_miss example_db example_save example_env_def)

lemma example_repo_missing:
  "PersonRepo_get_person PersonRepoFactory_get (PyStr ''missing'') example_env =
     (Inl (EntityDoesNotExist []),
      \<lparr>store = example_stores,
       calls = [CacheGet (PyStr ''missing''), DbGet (PyStr ''missing'')]\<rparr>)"
  by (simp add: PersonRepo_get_person_def invoke_def PersonRepoFactory_get_def
      example_cache_miss example_db example_env_def)

lemma example_repo_raising:
  "PersonRepo_get_person raising_repo (PyStr ''abc'') example_env =
     (Inl (OtherError ''database queried''),
      \<lparr>store = example_stores, calls = [CacheGet (PyStr ''abc''), DbGet (PyStr ''abc'')]\<rparr>)"
  by (simp add: PersonRepo_get_person_def invoke_def raising_repo_def raising_db_def
      example_cache_miss example_env_def)

lemma example_view_eq: "example_view = \<lparr>get_person_interactor = 0\<rparr>"
  by (simp add: example_view_def PersonViewFactory_create_def
      GetPersonInteractorFactory_get_def UseCaseInteractor_new_def example_state_def)

lemma example_world_env: "env example_world = example_env"
  by (simp add: example_world_def PersonViewFactory_create_def
      GetPersonInteractorFactory_get_def UseCaseInteractor_new_def example_state_def)

lemma example_world_repo:
  "uc_person_repo (objects example_world a) = PersonRepo_get_person PersonRepoFactory_get"
  by (simp add: example_world_def PersonViewFactory_create_def
      GetPersonInteractorFactory_get_def UseCaseInteractor_new_def example_state_def)

lemma example_view_abc:
  "fst (PersonView_get example_view (PyStr ''abc'') example_world)
     = Inr ([(''reference'', PyStr ''abc''), (''department_id'', PyInt 5)], 200)"
  by (simp add: PersonView_get_def set_params_def execute_def serialize_def
      example_view_eq example_world_repo example_world_env example_repo_miss)

lemma new_interactor:
  "fst (UseCaseInteractor_new person_repo example_state) = 0"
  "env (snd (UseCaseInteractor_new person_repo example_state)) = example_env"
  "uc_person_repo (objects (snd (UseCaseInteractor_new person_repo example_state)) 0)
     = person_repo"
  by (simp_all add: UseCaseInteractor_new_def example_state_def)

section \<open>PersonRepo.get_person\<close>

text \<open>
  Claim C1. Whenever the cache store returns a Person for the reference,
  \<open>PersonRepo.get_person\<close> returns that Person, and the only collaborator call it
  makes is the cache lookup: the database store's \<open>get_person\<close> is not invoked,
  whatever the database store is.
\<close>

theorem get_person_cache_hit:
  assumes "cache_get_person (cache_repo self) ref (store w) = (Inr (Some p), sa)"
  shows "PersonRepo_get_person self ref w
           = (Inr (Some p), \<lparr>store = sa, calls = calls w @ [CacheGet ref]\<rparr>)
         \<and> db_queries (calls (snd (PersonRepo_get_person self ref w))) = db_queries (calls w)"
  using assms by (simp add: PersonRepo_get_person_def invoke_eq db_queries_def)

theorem get_person_cache_hit_witness:
  "cache_get_person (cache_repo raising_repo) (PyStr ''cached'') (store example_env)
     = (Inr (Some (Person (PyStr ''cached'') (PyInt 7))), example_stores)
   \<and> PersonRepo_get_person raising_repo (PyStr ''cached'') example_env
     = (Inr (Some (Person (PyStr ''cached'') (PyInt 7))),
        \<lparr>store = example_stores, calls = [CacheGet (PyStr ''cached'')]\<rparr>)"
proof -
  have h: "cache_get_person (cache_repo raising_repo) (PyStr ''cached'') (store example_env)
     = (Inr (Some (Person (PyStr ''cached'') (PyInt 7))), example_stores)"
    by (simp add: raising_repo_def example_env_def example_repo_cached)
  from get_person_cache_hit [OF h] h show ?thesis
    by (simp add: example_env_def)
qed

text \<open>
  Claim C2. Whenever the cache store returns \<open>None\<close> and the database store returns
  a Person, \<open>PersonRepo.get_person\<close> calls \<open>save_person\<close> on the cache store with
  that same Person, after the database query and before returning, and returns that
  Person.

  First part: for any cache object, given that its \<open>save_person\<close> returns (the call
  is not guarded, so an exception of \<open>save_person\<close> would end \<open>get_person\<close>).
  Second part: with the key-value cache store of the spec, whose \<open>save_person\<close>
  always returns for a Person, and any database store: the Person is returned, it was
  written through \<open>save_person\<close>, and the cache contains it afterwards under its
  reference.
\<close>

theorem get_person_cache_miss_db_hit:
  "(cache_get_person (cache_repo self) ref (store w) = (Inr None, sa)
      \<and> db_get_person (db_repo self) ref sa = (Inr (Some p), sb)
      \<and> cache_save_person (cache_repo self) (Some p) sb = (Inr (), sc)
    \<longrightarrow> PersonRepo_get_person self ref w
          = (Inr (Some p),
             \<lparr>store = sc, calls = calls w @ [CacheGet ref, DbGet ref, CacheSave (Some p)]\<rparr>))
   \<and> (cache_repo self' = PersonCacheRepo
      \<and> cache_data (store w') ref' = None
      \<and> db_get_person (db_repo self') ref' (store w') = (Inr (Some p'), sb')
    \<longrightarrow> fst (PersonRepo_get_person self' ref' w') = Inr (Some p')
        \<and> calls (snd (PersonRepo_get_person self' ref' w'))
          = calls w' @ [CacheGet ref', DbGet ref', CacheSave (Some p')]
        \<and> cache_data (store (snd (PersonRepo_get_person self' ref' w'))) (reference p')
          = Some p')"
  by (simp add: PersonRepo_get_person_def invoke_eq PersonCacheRepo_def
      PersonCacheRepo_get_person_def PersonCacheRepo_save_person_def)

theorem get_person_cache_miss_db_hit_witness:
  "(cache_get_person (cache_repo PersonRepoFactory_get) (PyStr ''abc'') (store example_env)
      = (Inr None, example_stores)
    \<and> db_get_person (db_repo PersonRepoFactory_get) (PyStr ''abc'') example_stores
      = (Inr (Some (Person (PyStr ''abc'') (PyInt 5))), example_stores)
    \<and> cache_save_person (cache_repo PersonRepoFactory_get)
        (Some (Person (PyStr ''abc'') (PyInt 5))) example_stores
      = (Inr (), example_stores\<lparr>cache_data := (cache_data example_stores)
           (PyStr ''abc'' \<mapsto> Person (PyStr ''abc'') (PyInt 5))\<rparr>))
   \<and> (cache_repo PersonRepoFactory_get = PersonCacheRepo
    \<and> cache_data (store example_env) (PyStr ''abc'') = None)
   \<and> PersonRepo_get_person PersonRepoFactory_get (PyStr ''abc'') example_env
     = (Inr (Some (Person (PyStr ''abc'') (PyInt 5))),
        \<lparr>store = example_stores\<lparr>cache_data := (cache_data example_stores)
             (PyStr ''abc'' \<mapsto> Person (PyStr ''abc'') (PyInt 5))\<rparr>,
         calls = [CacheGet (PyStr ''abc''), DbGet (PyStr ''abc''),
                  CacheSave (Some (Person (PyStr ''abc'') (PyInt 5)))]\<rparr>)
   \<and> cache_data (store (snd (PersonRepo_get_person PersonRepoFactory_get (PyStr ''abc'')
        example_env))) (PyStr ''abc'') = Some (Person (PyStr ''abc'') (PyInt 5))"
proof -
  have h1: "cache_get_person (cache_repo PersonRepoFactory_get) (PyStr ''abc'')
              (store example_env) = (Inr None, example_stores)"
    by (simp add: PersonRepoFactory_get_def example_env_def example_cache_miss)
  have h2: "db_get_person (db_repo PersonRepoFactory_get) (PyStr ''abc'') example_stores
              = (Inr (Some (Person (PyStr ''abc'') (PyInt 5))), example_stores)"
    by (simp add: PersonRepoFactory_get_def example_db)
  have h3: "cache_save_person (cache_repo PersonRepoFactory_get)
              (Some (Person (PyStr ''abc'') (PyInt 5))) example_stores
            = (Inr (), example_stores\<lparr>cache_data := (cache_data example_stores)
                 (PyStr ''abc'' \<mapsto> Person (PyStr ''abc'') (PyInt 5))\<rparr>)"
    by (simp add: PersonRepoFactory_get_def example_save)
  have h4: "cache_repo PersonRepoFactory_get = PersonCacheRepo"
    by (simp add: PersonRepoFactory_get_def)
  have h5: "cache_data (store example_env) (PyStr ''abc'') = None"
    by (simp add: example_env_def example_stores_def)
  have h6: "db_get_person (db_repo PersonRepoFactory_get) (PyStr ''abc'') (store example_env)
              = (Inr (Some (Person (PyStr ''abc'') (PyInt 5))), example_stores)"
    using h2 by (simp add: example_env_def)
  note inst = get_person_cache_miss_db_hit
    [where self = PersonRepoFactory_get and ref = "PyStr ''abc''" and w = example_env
       and sa = example_stores and p = "Person (PyStr ''abc'') (PyInt 5)"
       and sb = example_stores
       and sc = "example_stores\<lparr>cache_data := (cache_data example_stores)
                   (PyStr ''abc'' \<mapsto> Person (PyStr ''abc'') (PyInt 5))\<rparr>"
       and self' = PersonRepoFactory_get and ref' = "PyStr ''abc''" and w' = example_env
       and p' = "Person (PyStr ''abc'') (PyInt 5)" and sb' = example_stores]
  from inst h1 h2 h3 h4 h5 h6 show ?thesis
    by (simp add: example_env_def)
qed

text \<open>
  Claim C3. Whenever the cache store returns \<open>None\<close> and the database store raises
  \<open>EntityDoesNotExist\<close>, \<open>PersonRepo.get_person\<close> raises that very exception
  (same arguments), the calls made are the cache lookup and the database query only,
  so \<open>save_person\<close> is not called, and the stores are left as the database query
  left them.
\<close>

theorem get_person_not_found:
  assumes "cache_get_person (cache_repo self) ref (store w) = (Inr None, sa)"
    and "db_get_person (db_repo self) ref sa = (Inl (EntityDoesNotExist args), sb)"
  shows "PersonRepo_get_person self ref w
           = (Inl (EntityDoesNotExist args),
              \<lparr>store = sb, calls = calls w @ [CacheGet ref, DbGet ref]\<rparr>)
         \<and> cache_writes (calls (snd (PersonRepo_get_person self ref w)))
           = cache_writes (calls w)"
  using assms by (simp add: PersonRepo_get_person_def invoke_eq cache_writes_def)

theorem get_person_not_found_witness:
  "cache_get_person (cache_repo PersonRepoFactory_get) (PyStr ''missing'') (store example_env)
     = (Inr None, example_stores)
   \<and> db_get_person (db_repo PersonRepoFactory_get) (PyStr ''missing'') example_stores
     = (Inl (EntityDoesNotExist []), example_stores)
   \<and> PersonRepo_get_person PersonRepoFactory_get (PyStr ''missing'') example_env
     = (Inl (EntityDoesNotExist []),
        \<lparr>store = example_stores,
         calls = [CacheGet (PyStr ''missing''), DbGet (PyStr ''missing'')]\<rparr>)"
proof -
  have h1: "cache_get_person (cache_repo PersonRepoFactory_get) (PyStr ''missing'')
              (store example_env) = (Inr None, example_stores)"
    by (simp add: PersonRepoFactory_get_def example_env_def example_cache_miss)
  have h2: "db_get_person (db_repo PersonRepoFactory_get) (PyStr ''missing'') example_stores
              = (Inl (EntityDoesNotExist []), example_stores)"
    by (simp add: PersonRepoFactory_get_def example_db)
  from get_person_not_found [OF h1 h2] h1 h2 show ?thesis
    by (simp add: example_env_def)
qed

text \<open>
  Claim C4. One call of \<open>PersonRepo.get_person\<close> queries the database store at most
  once: not at all when the cache store returns a Person (or raises), exactly once when
  the cache store returns \<open>None\<close>.
\<close>

theorem get_person_db_queries:
  "db_queries (calls (snd (PersonRepo_get_person self ref w)))
     = db_queries (calls w)
       + (case fst (cache_get_person (cache_repo self) ref (store w)) of
            Inr None \<Rightarrow> 1 | Inr (Some p) \<Rightarrow> 0 | Inl e \<Rightarrow> 0)
   \<and> db_queries (calls (snd (PersonRepo_get_person self ref w))) \<le> db_queries (calls w) + 1"
  by (simp add: PersonRepo_get_person_def invoke_def db_queries_def
      split: prod.splits sum.splits option.splits)

section \<open>PersonView.get and PersonSerializer.serialize\<close>

text \<open>
  Claim C5. Whenever the repository call made for the request raises
  \<open>EntityDoesNotExist\<close>, \<open>PersonView.get\<close> returns the body
  \<open>{'error': 'Person does not exist!'}\<close> with status 404.
\<close>

theorem view_not_found:
  assumes "uc_person_repo (objects \<sigma> (get_person_interactor self)) ref (env \<sigma>)
             = (Inl (EntityDoesNotExist args), w')"
  shows "fst (PersonView_get self ref \<sigma>)
           = Inr ([(''error'', PyStr ''Person does not exist!'')], 404)"
  using assms by (simp add: PersonView_get_def set_params_def execute_def)

theorem view_not_found_witness:
  "uc_person_repo (objects example_world (get_person_interactor example_view))
      (PyStr ''missing'') (env example_world)
     = (Inl (EntityDoesNotExist []),
        \<lparr>store = example_stores,
         calls = [CacheGet (PyStr ''missing''), DbGet (PyStr ''missing'')]\<rparr>)
   \<and> fst (PersonView_get example_view (PyStr ''missing'') example_world)
     = Inr ([(''error'', PyStr ''Person does not exist!'')], 404)"
proof -
  have h: "uc_person_repo (objects example_world (get_person_interactor example_view))
      (PyStr ''missing'') (env example_world)
     = (Inl (EntityDoesNotExist []),
        \<lparr>store = example_stores,
         calls = [CacheGet (PyStr ''missing''), DbGet (PyStr ''missing'')]\<rparr>)"
    by (simp add: example_world_repo example_world_env example_repo_missing)
  from view_not_found [OF h] h show ?thesis by simp
qed

text \<open>
  Claim C6, as the spec words it: with the repository returning
  \<open>Person(reference="abc", departmentId=5)\<close>, \<open>PersonView.get("abc")\<close> yields the
  body \<open>{"reference": "abc", "departmentId": 5}\<close> and status 200. In the example
  world the response is not that one: the body has no key \<open>departmentId\<close>.
\<close>

theorem view_spec_body_counterexample:
  "\<not> responds (fst (PersonView_get example_view (PyStr ''abc'') example_world))
        [(''reference'', PyStr ''abc''), (''departmentId'', PyInt 5)] 200"
  by (simp add: example_view_abc same_dict_def)

text \<open>
  Claim C6, amended. Whenever the repository call returns a Person,
  \<open>PersonView.get\<close> returns status 200 and the serialized Person as body, which has
  the keys \<open>reference\<close> and \<open>department_id\<close>; for \<open>Person("abc", 5)\<close> the body is
  \<open>{"reference": "abc", "department_id": 5}\<close>.
\<close>

theorem view_success:
  assumes "uc_person_repo (objects \<sigma> (get_person_interactor self)) ref (env \<sigma>)
             = (Inr (Some p), w')"
  shows "serialize (Some p)
           = Inr [(''reference'', reference p), (''department_id'', department_id p)]
         \<and> fst (PersonView_get self ref \<sigma>)
           = Inr ([(''reference'', reference p), (''department_id'', department_id p)], 200)"
  using assms by (simp add: PersonView_get_def set_params_def execute_def serialize_def)

theorem view_success_witness:
  "uc_person_repo (objects example_world (get_person_interactor example_view))
      (PyStr ''abc'') (env example_world)
     = (Inr (Some (Person (PyStr ''abc'') (PyInt 5))),
        \<lparr>store = example_stores\<lparr>cache_data := (cache_data example_stores)
             (PyStr ''abc'' \<mapsto> Person (PyStr ''abc'') (PyInt 5))\<rparr>,
         calls = [CacheGet (PyStr ''abc''), DbGet (PyStr ''abc''),
                  CacheSave (Some (Person (PyStr ''abc'') (PyInt 5)))]\<rparr>)
   \<and> fst (PersonView_get example_view (PyStr ''abc'') example_world)
     = Inr ([(''reference'', PyStr ''abc''), (''department_id'', PyInt 5)], 200)"
proof -
  have h: "uc_person_repo (objects example_world (get_person_interactor example_view))
      (PyStr ''abc'') (env example_world)
     = (Inr (Some (Person (PyStr ''abc'') (PyInt 5))),
        \<lparr>store = example_stores\<lparr>cache_data := (cache_data example_stores)
             (PyStr ''abc'' \<mapsto> Person (PyStr ''abc'') (PyInt 5))\<rparr>,
         calls = [CacheGet (PyStr ''abc''), DbGet (PyStr ''abc''),
                  CacheSave (Some (Person (PyStr ''abc'') (PyInt 5)))]\<rparr>)"
    by (simp add: example_world_repo example_world_env example_repo_miss)
  from view_success [OF h] h show ?thesis by simp
qed

text \<open>
  Claim C7, as the spec words it: \<open>serialize(Person(r, d))\<close> equals the mapping
  \<open>{reference: r, departmentId: d}\<close>. For \<open>Person("abc", 5)\<close> the result is not
  that dictionary.
\<close>

theorem serialize_spec_key_counterexample:
  "\<not> returns_dict (serialize (Some (Person (PyStr ''abc'') (PyInt 5))))
        [(''reference'', PyStr ''abc''), (''departmentId'', PyInt 5)]"
  by (simp add: serialize_def same_dict_def)

text \<open>
  Claim C7, amended. For all values \<open>r\<close> and \<open>d\<close>, \<open>serialize(Person(r, d))\<close>
  returns the dictionary with exactly the two keys \<open>reference\<close> and
  \<open>department_id\<close>, bound to \<open>r\<close> and \<open>d\<close>: nothing is checked (no value makes
  it raise) and no field is left out.
\<close>

theorem serialize_person:
  "serialize (Some (Person r d)) = Inr [(''reference'', r), (''department_id'', d)]
   \<and> returns_dict (serialize (Some (Person r d)))
       [(''department_id'', d), (''reference'', r)]"
  by (simp add: serialize_def same_dict_def)

section \<open>UseCaseInteractor\<close>

text \<open>
  Claim C8. \<open>set_params\<close> returns the interactor it was called on. After any number
  of \<open>set_params\<close> calls on an interactor, the last one with reference \<open>ref\<close>,
  \<open>execute\<close> makes exactly one call of the repository's \<open>get_person\<close>, with
  \<open>ref\<close>, and returns what that call returns.
\<close>

theorem set_params_then_execute:
  "fst (set_params self ref \<sigma>) = self
   \<and> repo_calls (snd (execute self (configure self (refs @ [ref]) \<sigma>)))
     = repo_calls \<sigma> @ [ref]
   \<and> fst (execute self (configure self (refs @ [ref]) \<sigma>))
     = fst (uc_person_repo (objects \<sigma> self) ref (env \<sigma>))
   \<and> env (snd (execute self (configure self (refs @ [ref]) \<sigma>)))
     = snd (uc_person_repo (objects \<sigma> self) ref (env \<sigma>))"
  by (simp add: configure_snoc set_params_def execute_def configure_keeps
      split: prod.splits)

section \<open>Exceptions at the view\<close>

text \<open>
  Claim C9. \<open>PersonView.get\<close> handles \<open>EntityDoesNotExist\<close> and nothing else: an
  exception of any other class raised by the interactor leaves \<open>PersonView.get\<close>
  as it is, and so does every exception raised by the serializer.
\<close>

theorem view_other_exceptions:
  "(uc_person_repo (objects \<sigma> (get_person_interactor self)) ref (env \<sigma>) = (Inl e, w')
      \<and> \<not> is_EntityDoesNotExist e
    \<longrightarrow> fst (PersonView_get self ref \<sigma>) = Inl e)
   \<and> (uc_person_repo (objects \<sigma> (get_person_interactor self)) ref (env \<sigma>)
        = (Inr person, w')
      \<and> serialize person = Inl e
    \<longrightarrow> fst (PersonView_get self ref \<sigma>) = Inl e)"
  by (cases e) (simp_all add: PersonView_get_def set_params_def execute_def)

theorem view_other_exceptions_witness:
  "(uc_person_repo (objects (snd (UseCaseInteractor_new (PersonRepo_get_person raising_repo)
        example_state)) (get_person_interactor \<lparr>get_person_interactor = 0\<rparr>))
      (PyStr ''abc'')
      (env (snd (UseCaseInteractor_new (PersonRepo_get_person raising_repo) example_state)))
     = (Inl (OtherError ''database queried''),
        \<lparr>store = example_stores, calls = [CacheGet (PyStr ''abc''), DbGet (PyStr ''abc'')]\<rparr>)
    \<and> \<not> is_EntityDoesNotExist (OtherError ''database queried'')
    \<and> fst (PersonView_get \<lparr>get_person_interactor = 0\<rparr> (PyStr ''abc'')
        (snd (UseCaseInteractor_new (PersonRepo_get_person raising_repo) example_state)))
      = Inl (OtherError ''database queried''))
   \<and> (uc_person_repo (objects (snd (UseCaseInteractor_new null_repo example_state))
        (get_person_interactor \<lparr>get_person_interactor = 0\<rparr>))
      (PyStr ''abc'') (env (snd (UseCaseInteractor_new null_repo example_state)))
     = (Inr None, example_env)
    \<and> serialize None = Inl (AttributeError ''reference'')
    \<and> fst (PersonView_get \<lparr>get_person_interactor = 0\<rparr> (PyStr ''abc'')
        (snd (UseCaseInteractor_new null_repo example_state)))
      = Inl (AttributeError ''reference''))"
proof -
  have h1: "uc_person_repo (objects (snd (UseCaseInteractor_new
        (PersonRepo_get_person raising_repo) example_state))
        (get_person_interactor \<lparr>get_person_interactor = 0\<rparr>))
      (PyStr ''abc'')
      (env (snd (UseCaseInteractor_new (PersonRepo_get_person raising_repo) example_state)))
     = (Inl (OtherError ''database queried''),
        \<lparr>store = example_stores, calls = [CacheGet (PyStr ''abc''), DbGet (PyStr ''abc'')]\<rparr>)"
    by (simp add: new_interactor example_repo_raising)
  have h2: "\<not> is_EntityDoesNotExist (OtherError ''database queried'')"
    by simp
  have h3: "uc_person_repo (objects (snd (UseCaseInteractor_new null_repo example_state))
        (get_person_interactor \<lparr>get_person_interactor = 0\<rparr>))
      (PyStr ''abc'') (env (snd (UseCaseInteractor_new null_repo example_state)))
     = (Inr None, example_env)"
    by (simp add: new_interactor null_repo_def)
  have h4: "serialize None = Inl (AttributeError ''reference'')"
    by (simp add: serialize_def)
  note raised = view_other_exceptions
    [where \<sigma> = "snd (UseCaseInteractor_new (PersonRepo_get_person raising_repo) example_state)"
       and self = "\<lparr>get_person_interactor = 0\<rparr>" and ref = "PyStr ''abc''"
       and e = "OtherError ''database queried''"
       and w' = "\<lparr>store = example_stores,
                  calls = [CacheGet (PyStr ''abc''), DbGet (PyStr ''abc'')]\<rparr>"]
  note unserializable = view_other_exceptions
    [where \<sigma> = "snd (UseCaseInteractor_new null_repo example_state)"
       and self = "\<lparr>get_person_interactor = 0\<rparr>" and ref = "PyStr ''abc''"
       and e = "AttributeError ''reference''" and person = None and w' = example_env]
  from raised unserializable h1 h2 h3 h4 show ?thesis by simp
qed

section \<open>An interactor without parameters\<close>

text \<open>
  Claim C10. The constructor does not create the attribute \<open>reference\<close>:
  \<open>execute\<close> on a newly constructed interactor raises (\<open>AttributeError\<close>) and
  calls no repository. In any sequence of \<open>set_params\<close> and \<open>execute\<close> calls on
  a newly constructed interactor, every \<open>execute\<close> that succeeds comes after some
  \<open>set_params\<close>.
\<close>

theorem execute_needs_set_params:
  "fst (execute (fst (UseCaseInteractor_new person_repo \<sigma>))
          (snd (UseCaseInteractor_new person_repo \<sigma>)))
     = Inl (AttributeError ''reference'')
   \<and> repo_calls (snd (execute (fst (UseCaseInteractor_new person_repo \<sigma>))
          (snd (UseCaseInteractor_new person_repo \<sigma>)))) = repo_calls \<sigma>
   \<and> (k < length ops
      \<and> succeeded (run_ops (fst (UseCaseInteractor_new person_repo \<sigma>)) ops
                     (snd (UseCaseInteractor_new person_repo \<sigma>)) ! k)
      \<longrightarrow> (\<exists>j<k. is_SetParams (ops ! j)))"
proof -
  have fresh: "uc_reference (objects (snd (UseCaseInteractor_new person_repo \<sigma>))
                  (fst (UseCaseInteractor_new person_repo \<sigma>))) = None"
    by (simp add: UseCaseInteractor_new_def)
  then have "fst (execute (fst (UseCaseInteractor_new person_repo \<sigma>))
          (snd (UseCaseInteractor_new person_repo \<sigma>))) = Inl (AttributeError ''reference'')"
    and "repo_calls (snd (execute (fst (UseCaseInteractor_new person_repo \<sigma>))
          (snd (UseCaseInteractor_new person_repo \<sigma>)))) = repo_calls \<sigma>"
    by (simp_all add: execute_def UseCaseInteractor_new_def)
  with run_ops_needs_params [OF fresh] show ?thesis by blast
qed

theorem execute_needs_set_params_witness:
  "(1::nat) < length [SetParams (PyStr ''abc''), Execute]
   \<and> succeeded (run_ops
        (fst (UseCaseInteractor_new (PersonRepo_get_person PersonRepoFactory_get)
               example_state))
        [SetParams (PyStr ''abc''), Execute]
        (snd (UseCaseInteractor_new (PersonRepo_get_person PersonRepoFactory_get)
               example_state)) ! 1)
   \<and> (\<exists>j<1. is_SetParams ([SetParams (PyStr ''abc''), Execute] ! j))
   \<and> fst (execute
        (fst (UseCaseInteractor_new (PersonRepo_get_person PersonRepoFactory_get)
               example_state))
        (snd (UseCaseInteractor_new (PersonRepo_get_person PersonRepoFactory_get)
               example_state)))
     = Inl (AttributeError ''reference'')"
proof -
  have h1: "(1::nat) < length [SetParams (PyStr ''abc''), Execute]"
    by simp
  have h2: "succeeded (run_ops
        (fst (UseCaseInteractor_new (PersonRepo_get_person PersonRepoFactory_get)
               example_state))
        [SetParams (PyStr ''abc''), Execute]
        (snd (UseCaseInteractor_new (PersonRepo_get_person PersonRepoFactory_get)
               example_state)) ! 1)"
    by (simp add: new_interactor set_params_def execute_def example_repo_miss)
  note inst = execute_needs_set_params
    [where person_repo = "PersonRepo_get_person PersonRepoFactory_get"
       and \<sigma> = example_state and k = 1 and ops = "[SetParams (PyStr ''abc''), Execute]"]
  from inst h1 h2 show ?thesis by blast
qed

end
